theory Spec2Isabelle
  imports Main "HOL-Library.Sublist"
begin

section \<open>GitHub issue summary: data model\<close>

text \<open>
  The script \<^verbatim>\<open>test-github-issue-summary.py\<close> works on JSON dictionaries. A raw issue
  of the GitHub API is read at the keys \<^verbatim>\<open>number\<close>, \<^verbatim>\<open>title\<close>, \<^verbatim>\<open>html_url\<close> and
  \<^verbatim>\<open>labels\<close> (a list of dictionaries read at \<^verbatim>\<open>name\<close>); the entry that
  \<^verbatim>\<open>categorize_issues\<close> stores in a bucket has the keys \<^verbatim>\<open>number\<close>, \<^verbatim>\<open>title\<close> and
  \<^verbatim>\<open>url\<close>. Both share \<^verbatim>\<open>number\<close> and \<^verbatim>\<open>title\<close>, which is the common root record
  here. Python integers are \<^typ>\<open>int\<close>, strings are \<^typ>\<open>string\<close>.
\<close>

record label =
  name :: string

record issue_core =
  number :: int
  title :: string

record raw_issue = issue_core +
  html_url :: string
  labels :: "label list"

record issue = issue_core +
  url :: string

text \<open>
  The snapshot dictionary built at the end of \<^verbatim>\<open>categorize_issues\<close>. \<^verbatim>\<open>save_snapshot\<close>
  adds \<^verbatim>\<open>timestamp\<close> and \<^verbatim>\<open>repoName\<close> before writing, so a snapshot loaded from the
  file is an extension of the same record.
\<close>

record snapshot =
  readyForTesting :: "issue list"
  inProgress :: "issue list"
  blocked :: "issue list"
  backlog :: "issue list"
  readyForTestingCount :: int
  inProgressCount :: int
  blockedCount :: int
  backlogCount :: int
  totalCount :: int

record stored_snapshot = snapshot +
  timestamp :: string
  repoName :: string

section \<open>Strings\<close>

text \<open>
  A Python string is modelled by its UTF-8 bytes. Python's \<^verbatim>\<open>needle in hay\<close> on
  strings is the contiguous-substring test, which is \<^const>\<open>sublist\<close>; every needle
  of the script is ASCII text, for which the test on the bytes and the test on the code
  points agree.
\<close>

definition contains :: "string \<Rightarrow> string \<Rightarrow> bool" where
  "contains hay needle = sublist needle hay"

text \<open>
  \<^verbatim>\<open>str.lower()\<close> follows the case table of Unicode, which is not part of the script:
  the categorizer below takes the function as its parameter \<open>lower\<close>, and what is
  proved of it holds for every such function. On ASCII text \<^verbatim>\<open>str.lower()\<close> maps
  the letters \<^verbatim>\<open>A\<close> to \<^verbatim>\<open>Z\<close> and keeps every other character: that is
  \<open>ascii_lower\<close>, which stands for it in the examples, whose labels are ASCII text.
\<close>

definition ascii_lower_char :: "char \<Rightarrow> char" where
  "ascii_lower_char c =
     (if (65::nat) \<le> of_char c \<and> of_char c \<le> (90::nat)
      then char_of (of_char c + (32::nat)) else c)"

definition ascii_lower :: "string \<Rightarrow> string" where
  "ascii_lower s = map ascii_lower_char s"

section \<open>The categorizer\<close>

text \<open>
  \<^verbatim>\<open>any(label for label in label_names if cond(label))\<close>: the generator yields the
  labels that satisfy the condition, and \<^verbatim>\<open>any\<close> asks whether one of the yielded
  strings is truthy, that is, non-empty.
\<close>

definition any_label :: "(string \<Rightarrow> bool) \<Rightarrow> string list \<Rightarrow> bool" where
  "any_label cond label_names = list_ex (\<lambda>l. l \<noteq> []) (filter cond label_names)"

text \<open>
  \<^verbatim>\<open>label_names\<close> of line 64, with \<^verbatim>\<open>str.lower\<close> as the parameter \<open>lower\<close>, which
  the loop and \<^verbatim>\<open>categorize_issues\<close> pass on.
\<close>

definition label_names :: "(string \<Rightarrow> string) \<Rightarrow> raw_issue \<Rightarrow> string list" where
  "label_names lower i = map (\<lambda>l. lower (name l)) (labels i)"

definition category :: "raw_issue \<Rightarrow> issue" where
  "category i = \<lparr>number = number i, title = title i, url = html_url i\<rparr>"

definition has_blocked :: "string list \<Rightarrow> bool" where
  "has_blocked ls =
     any_label (\<lambda>l. contains l ''blocked'' \<and> \<not> contains l ''unblocked'') ls"

definition has_ready :: "string list \<Rightarrow> bool" where
  "has_ready ls = any_label (\<lambda>l. contains l ''ready'' \<and> contains l ''test'') ls"

definition has_in_progress :: "string list \<Rightarrow> bool" where
  "has_in_progress ls =
     any_label (\<lambda>l. contains l ''in-progress'' \<or> contains l ''in progress''
                    \<or> contains l ''status:in-progress'') ls"

text \<open>The four accumulators of the loop, and one iteration of its body.\<close>

record buckets =
  ready_for_testing :: "issue list"
  in_progress :: "issue list"
  blocked_acc :: "issue list"
  backlog_acc :: "issue list"

definition categorize_step :: "(string \<Rightarrow> string) \<Rightarrow> raw_issue \<Rightarrow> buckets \<Rightarrow> buckets" where
  "categorize_step lower i b =
     (if has_blocked (label_names lower i) then b\<lparr>blocked_acc := blocked_acc b @ [category i]\<rparr>
      else if has_ready (label_names lower i)
        then b\<lparr>ready_for_testing := ready_for_testing b @ [category i]\<rparr>
      else if has_in_progress (label_names lower i)
        then b\<lparr>in_progress := in_progress b @ [category i]\<rparr>
      else b\<lparr>backlog_acc := backlog_acc b @ [category i]\<rparr>)"

fun categorize_loop :: "(string \<Rightarrow> string) \<Rightarrow> raw_issue list \<Rightarrow> buckets \<Rightarrow> buckets" where
  "categorize_loop lower [] b = b"
| "categorize_loop lower (i # rest) b = categorize_loop lower rest (categorize_step lower i b)"

definition categorize_issues :: "(string \<Rightarrow> string) \<Rightarrow> raw_issue list \<Rightarrow> snapshot" where
  "categorize_issues lower issues =
     (let b = categorize_loop lower issues
                \<lparr>ready_for_testing = [], in_progress = [], blocked_acc = [], backlog_acc = []\<rparr>
      in \<lparr>readyForTesting = ready_for_testing b,
          inProgress = in_progress b,
          blocked = blocked_acc b,
          backlog = backlog_acc b,
          readyForTestingCount = int (length (ready_for_testing b)),
          inProgressCount = int (length (in_progress b)),
          blockedCount = int (length (blocked_acc b)),
          backlogCount = int (length (backlog_acc b)),
          totalCount = int (length issues)\<rparr>)"

text \<open>
  The categorizer as the specification words it: the label predicates, tried in the
  priority order Blocked, ReadyForTesting, InProgress, with Backlog as the default, on
  the label names of an issue in lower case.
\<close>

datatype bucket = Blocked | ReadyForTesting | InProgress | Backlog

definition blocked_label :: "string \<Rightarrow> bool" where
  "blocked_label l = (contains l ''blocked'' \<and> \<not> contains l ''unblocked'')"

definition ready_label :: "string \<Rightarrow> bool" where
  "ready_label l = (contains l ''ready'' \<and> contains l ''test'')"

definition in_progress_label :: "string \<Rightarrow> bool" where
  "in_progress_label l =
     (contains l ''in-progress'' \<or> contains l ''in progress''
      \<or> contains l ''status:in-progress'')"

definition spec_category :: "string list \<Rightarrow> bucket" where
  "spec_category ls =
     (if list_ex blocked_label ls then Blocked
      else if list_ex ready_label ls then ReadyForTesting
      else if list_ex in_progress_label ls then InProgress
      else Backlog)"

definition in_bucket :: "(string \<Rightarrow> string) \<Rightarrow> bucket \<Rightarrow> raw_issue \<Rightarrow> bool" where
  "in_bucket lower c i = (spec_category (map (\<lambda>l. lower (name l)) (labels i)) = c)"

text \<open>The set comprehension \<^verbatim>\<open>{i['number'] for i in xs}\<close>.\<close>

definition ids :: "issue list \<Rightarrow> int set" where
  "ids xs = set (map number xs)"

section \<open>The delta engine\<close>

text \<open>
  The dictionary that \<^verbatim>\<open>calculate_delta\<close> returns has one entry per category, with
  the keys \<^verbatim>\<open>count\<close> and \<^verbatim>\<open>delta\<close>, and \<^verbatim>\<open>new\<close> and \<^verbatim>\<open>moved\<close> only for some
  categories: a key that is absent is \<^const>\<open>None\<close>. The entries of the outer dictionary
  are \<^verbatim>\<open>readyForTesting\<close>, \<^verbatim>\<open>inProgress\<close>, \<^verbatim>\<open>blocked\<close> and \<^verbatim>\<open>backlog\<close>, suffixed
  here to keep them apart from the snapshot's fields.
\<close>

record category_delta =
  count :: int
  delta :: int
  new :: "issue list option"
  moved :: "issue list option"

record delta_report =
  readyForTestingDelta :: category_delta
  inProgressDelta :: category_delta
  blockedDelta :: category_delta
  backlogDelta :: category_delta

text \<open>
  \<^verbatim>\<open>previous\<close> is \<^verbatim>\<open>None\<close> or the dictionary read from the snapshot file; a
  dictionary written by \<^verbatim>\<open>save_snapshot\<close> is never empty, so \<^verbatim>\<open>not previous\<close> is
  the test for \<^verbatim>\<open>None\<close>.
\<close>

definition calculate_delta ::
  "'a snapshot_scheme \<Rightarrow> 'b snapshot_scheme option \<Rightarrow> delta_report" where
  "calculate_delta current previous =
     (case previous of
        None \<Rightarrow>
          \<lparr>readyForTestingDelta =
             \<lparr>count = readyForTestingCount current, delta = readyForTestingCount current,
              new = Some (readyForTesting current), moved = Some []\<rparr>,
           inProgressDelta =
             \<lparr>count = inProgressCount current, delta = inProgressCount current,
              new = Some (inProgress current), moved = None\<rparr>,
           blockedDelta =
             \<lparr>count = blockedCount current, delta = blockedCount current,
              new = Some (blocked current), moved = None\<rparr>,
           backlogDelta =
             \<lparr>count = backlogCount current, delta = backlogCount current,
              new = None, moved = None\<rparr>\<rparr>
      | Some prev \<Rightarrow>
          (let prev_ready_ids = ids (readyForTesting prev);
               new_ready =
                 filter (\<lambda>i. number i \<notin> prev_ready_ids) (readyForTesting current);
               prev_in_progress_ids = ids (inProgress prev);
               prev_blocked_ids = ids (blocked prev);
               prev_backlog_ids = ids (backlog prev);
               moved_to_ready =
                 filter (\<lambda>i. number i \<in> prev_in_progress_ids
                              \<or> number i \<in> prev_blocked_ids
                              \<or> number i \<in> prev_backlog_ids)
                   (readyForTesting current);
               prev_all_ids =
                 ids (readyForTesting prev @ inProgress prev @ blocked prev @ backlog prev);
               new_in_progress =
                 filter (\<lambda>i. number i \<notin> prev_all_ids) (inProgress current);
               new_blocked = filter (\<lambda>i. number i \<notin> prev_all_ids) (blocked current)
           in \<lparr>readyForTestingDelta =
                 \<lparr>count = readyForTestingCount current,
                  delta = readyForTestingCount current - readyForTestingCount prev,
                  new = Some new_ready, moved = Some moved_to_ready\<rparr>,
               inProgressDelta =
                 \<lparr>count = inProgressCount current,
                  delta = inProgressCount current - inProgressCount prev,
                  new = Some new_in_progress, moved = None\<rparr>,
               blockedDelta =
                 \<lparr>count = blockedCount current,
                  delta = blockedCount current - blockedCount prev,
                  new = Some new_blocked, moved = None\<rparr>,
               backlogDelta =
                 \<lparr>count = backlogCount current,
                  delta = backlogCount current - backlogCount prev,
                  new = None, moved = None\<rparr>\<rparr>))"

text \<open>
  Two snapshots that agree on the issue numbers of every bucket and on the count fields
  (titles and urls are free), and two reports with the same classification: the same
  counts and net changes and the same issue numbers in every list.
\<close>

definition same_numbers :: "'a snapshot_scheme \<Rightarrow> 'b snapshot_scheme \<Rightarrow> bool" where
  "same_numbers s t =
     (map number (readyForTesting s) = map number (readyForTesting t)
      \<and> map number (inProgress s) = map number (inProgress t)
      \<and> map number (blocked s) = map number (blocked t)
      \<and> map number (backlog s) = map number (backlog t)
      \<and> readyForTestingCount s = readyForTestingCount t
      \<and> inProgressCount s = inProgressCount t
      \<and> blockedCount s = blockedCount t
      \<and> backlogCount s = backlogCount t)"

definition same_numbers_opt ::
  "'a snapshot_scheme option \<Rightarrow> 'b snapshot_scheme option \<Rightarrow> bool" where
  "same_numbers_opt p q =
     (case p of
        None \<Rightarrow> (case q of None \<Rightarrow> True | Some t \<Rightarrow> False)
      | Some s \<Rightarrow> (case q of None \<Rightarrow> False | Some t \<Rightarrow> same_numbers s t))"

definition same_entry :: "category_delta \<Rightarrow> category_delta \<Rightarrow> bool" where
  "same_entry d e =
     (count d = count e \<and> delta d = delta e
      \<and> map_option (map number) (new d) = map_option (map number) (new e)
      \<and> map_option (map number) (moved d) = map_option (map number) (moved e))"

definition same_classification :: "delta_report \<Rightarrow> delta_report \<Rightarrow> bool" where
  "same_classification d e =
     (same_entry (readyForTestingDelta d) (readyForTestingDelta e)
      \<and> same_entry (inProgressDelta d) (inProgressDelta e)
      \<and> same_entry (blockedDelta d) (blockedDelta e)
      \<and> same_entry (backlogDelta d) (backlogDelta e))"

section \<open>The message formatter\<close>

text \<open>
  \<^verbatim>\<open>str\<close> of a Python integer: the decimal digits, most significant first, with a
  leading minus sign for a negative number. \<open>decimal_value\<close> reads such digits back.
\<close>

definition digit_char :: "nat \<Rightarrow> char" where
  "digit_char d = char_of (48 + d)"

fun str_nat :: "nat \<Rightarrow> string" where
  "str_nat n = (if n < 10 then [digit_char n] else str_nat (n div 10) @ [digit_char (n mod 10)])"

definition str_int :: "int \<Rightarrow> string" where
  "str_int n = (if n < 0 then CHR ''-'' # str_nat (nat (- n)) else str_nat (nat n))"

definition decimal_value :: "string \<Rightarrow> nat" where
  "decimal_value s = foldl (\<lambda>acc c. 10 * acc + (of_char c - 48)) 0 s"

definition format_delta :: "int \<Rightarrow> string" where
  "format_delta delta_num =
     (if delta_num > 0 then ''+'' @ str_int delta_num
      else if delta_num < 0 then str_int delta_num
      else ''no change'')"

section \<open>The snapshot store and the run\<close>

text \<open>
  The snapshot file is absent, holds something \<^verbatim>\<open>json.load\<close> rejects, or holds a
  snapshot that an earlier run saved.
\<close>

datatype snapshot_file = Absent | Corrupt | Present stored_snapshot

datatype exception = Exception string

definition GITHUB_REPO_OWNER :: string where
  "GITHUB_REPO_OWNER = ''ChinchillaEnterprises''"

definition GITHUB_REPO_NAME :: string where
  "GITHUB_REPO_NAME = ''transportation-insight''"

definition load_previous_snapshot :: "snapshot_file \<Rightarrow> exception + stored_snapshot option" where
  "load_previous_snapshot f =
     (case f of
        Absent \<Rightarrow> Inr None
      | Corrupt \<Rightarrow> Inl (Exception ''JSONDecodeError'')
      | Present s \<Rightarrow> Inr (Some s))"

text \<open>
  \<^verbatim>\<open>save_snapshot\<close> adds the two fields and rewrites the file; its result is the new
  content of the file. The second argument is \<^verbatim>\<open>datetime.now().isoformat()\<close>.
\<close>

definition save_snapshot :: "snapshot \<Rightarrow> string \<Rightarrow> snapshot_file" where
  "save_snapshot s now =
     Present
       \<lparr>readyForTesting = readyForTesting s, inProgress = inProgress s,
        blocked = blocked s, backlog = backlog s,
        readyForTestingCount = readyForTestingCount s,
        inProgressCount = inProgressCount s,
        blockedCount = blockedCount s, backlogCount = backlogCount s,
        totalCount = totalCount s,
        timestamp = now, repoName = GITHUB_REPO_OWNER @ ''/'' @ GITHUB_REPO_NAME\<rparr>"

text \<open>
  The answer of the Slack API, \<^verbatim>\<open>response.json()\<close>, read at \<^verbatim>\<open>ok\<close>, \<^verbatim>\<open>ts\<close> and
  \<^verbatim>\<open>error\<close>. What the outside world answers to one run: the two secrets, the issues
  that \<^verbatim>\<open>fetch_github_issues\<close> returns, the answer to the Slack request (each one
  may raise instead) and the clock.
\<close>

record slack_result =
  ok :: bool
  ts :: string
  error :: string

record world =
  github_secret :: "exception + string"
  slack_secret :: "exception + string"
  github_issues :: "exception + raw_issue list"
  slack_post :: "exception + slack_result"
  clock :: string

text \<open>
  \<^verbatim>\<open>send_slack_message\<close>: in a dry run it prints the message and returns; otherwise it
  posts the message, and on either value of \<^verbatim>\<open>result.get('ok')\<close> it prints a line and
  returns. It raises only when the request itself raises. The text of the message has no
  part in the control flow and is left out.
\<close>

definition send_slack_message :: "bool \<Rightarrow> exception + slack_result \<Rightarrow> exception + unit" where
  "send_slack_message dry_run post =
     (if dry_run then Inr ()
      else (case post of
              Inl e \<Rightarrow> Inl e
            | Inr result \<Rightarrow> (if ok result then Inr () else Inr ())))"

text \<open>
  \<^verbatim>\<open>main\<close>: the six steps inside \<^verbatim>\<open>try\<close>, any exception caught by the handler that
  returns 1. The result is the exit status and the snapshot file after the run. Printing
  and the formatting of the message text are taken to succeed. The parameter \<open>lower\<close>
  is the one of \<^verbatim>\<open>categorize_issues\<close>.
\<close>

definition main :: "(string \<Rightarrow> string) \<Rightarrow> bool \<Rightarrow> world \<Rightarrow> snapshot_file \<Rightarrow> nat \<times> snapshot_file" where
  "main lower dry_run w file =
     (case github_secret w of
        Inl e \<Rightarrow> (1, file)
      | Inr github_token \<Rightarrow>
     (case slack_secret w of
        Inl e \<Rightarrow> (1, file)
      | Inr slack_token \<Rightarrow>
     (case github_issues w of
        Inl e \<Rightarrow> (1, file)
      | Inr issues \<Rightarrow>
     (let current_snapshot = categorize_issues lower issues in
     (case load_previous_snapshot file of
        Inl e \<Rightarrow> (1, file)
      | Inr previous_snapshot \<Rightarrow>
     (let delta = calculate_delta current_snapshot previous_snapshot in
     (case send_slack_message dry_run (slack_post w) of
        Inl e \<Rightarrow> (1, file)
      | Inr u \<Rightarrow> (0, save_snapshot current_snapshot (clock w)))))))))"

section \<open>Example inputs\<close>

text \<open>
  All labels of the examples are ASCII text, so that \<^verbatim>\<open>str.lower()\<close> is
  \<^const>\<open>ascii_lower\<close> on them.
\<close>

definition mk_issue :: "int \<Rightarrow> string list \<Rightarrow> raw_issue" where
  "mk_issue n ls =
     \<lparr>number = n, title = ''Issue'', html_url = ''https://github.com/o/r/issues'',
      labels = map (\<lambda>s. \<lparr>name = s\<rparr>) ls\<rparr>"

definition entry :: "int \<Rightarrow> issue" where
  "entry n = \<lparr>number = n, title = ''Issue'', url = ''https://github.com/o/r/issues''\<rparr>"

definition renamed :: "int \<Rightarrow> issue" where
  "renamed n = \<lparr>number = n, title = ''Renamed'', url = ''https://example.org/moved''\<rparr>"

definition example_issues :: "raw_issue list" where
  "example_issues =
     [mk_issue 1 [''Blocked''], mk_issue 2 [], mk_issue 3 [''status:in-progress'', ''priority:high''],
      mk_issue 4 [''Ready for Testing''], mk_issue 5 [''unblocked'', ''bug'']]"

definition unblocked_and_blocked :: raw_issue where
  "unblocked_and_blocked = mk_issue 9 [''unblocked'', ''blocked'']"

text \<open>Issue 5 is blocked in the earlier snapshot and ready for testing in the later one.\<close>

definition before_move :: snapshot where
  "before_move = categorize_issues ascii_lower [mk_issue 5 [''blocked''], mk_issue 7 []]"

definition after_move :: snapshot where
  "after_move = categorize_issues ascii_lower [mk_issue 5 [''ready-for-testing''], mk_issue 7 []]"

definition after_move_renamed :: snapshot where
  "after_move_renamed =
     \<lparr>readyForTesting = [renamed 5], inProgress = [], blocked = [], backlog = [renamed 7],
      readyForTestingCount = 1, inProgressCount = 0, blockedCount = 0, backlogCount = 1,
      totalCount = 2\<rparr>"

definition before_move_renamed :: snapshot where
  "before_move_renamed =
     \<lparr>readyForTesting = [], inProgress = [], blocked = [renamed 5], backlog = [renamed 7],
      readyForTestingCount = 0, inProgressCount = 0, blockedCount = 1, backlogCount = 1,
      totalCount = 2\<rparr>"

text \<open>A live run in which Slack rejects the message.\<close>

definition rejecting_world :: world where
  "rejecting_world =
     \<lparr>github_secret = Inr ''ghp'', slack_secret = Inr ''xoxb'',
      github_issues = Inr [mk_issue 5 [''ready-for-testing''], mk_issue 7 []],
      slack_post = Inr \<lparr>ok = False, ts = [], error = ''channel_not_found''\<rparr>,
      clock = ''2025-01-02T09:00:00''\<rparr>"

definition old_file :: snapshot_file where
  "old_file = save_snapshot before_move ''2025-01-01T09:00:00''"

declare str_nat.simps [simp del]

section \<open>The categorizer: the loop as a stable partition\<close>

lemma contains_nonempty: "contains l (c # cs) \<Longrightarrow> l \<noteq> []"
  by (auto simp: contains_def)

lemma any_label_list_ex:
  assumes "\<And>l. cond l \<Longrightarrow> l \<noteq> []"
  shows "any_label cond ls = list_ex cond ls"
  using assms by (induction ls) (auto simp: any_label_def)

lemma has_blocked_list_ex: "has_blocked ls = list_ex blocked_label ls"
  unfolding has_blocked_def blocked_label_def
  by (rule any_label_list_ex) (auto dest: contains_nonempty)

lemma has_ready_list_ex: "has_ready ls = list_ex ready_label ls"
  unfolding has_ready_def ready_label_def
  by (rule any_label_list_ex) (auto dest: contains_nonempty)

lemma has_in_progress_list_ex: "has_in_progress ls = list_ex in_progress_label ls"
  unfolding has_in_progress_def in_progress_label_def
  by (rule any_label_list_ex) (auto dest: contains_nonempty)

lemmas has_list_ex = has_blocked_list_ex has_ready_list_ex has_in_progress_list_ex

lemma categorize_step_bucket:
  "categorize_step lower i b =
     (case spec_category (label_names lower i) of
        Blocked \<Rightarrow> b\<lparr>blocked_acc := blocked_acc b @ [category i]\<rparr>
      | ReadyForTesting \<Rightarrow> b\<lparr>ready_for_testing := ready_for_testing b @ [category i]\<rparr>
      | InProgress \<Rightarrow> b\<lparr>in_progress := in_progress b @ [category i]\<rparr>
      | Backlog \<Rightarrow> b\<lparr>backlog_acc := backlog_acc b @ [category i]\<rparr>)"
  by (simp add: categorize_step_def spec_category_def has_list_ex)

lemma categorize_loop_buckets:
  "blocked_acc (categorize_loop lower is b) = blocked_acc b @ map category (filter (in_bucket lower Blocked) is)
   \<and> ready_for_testing (categorize_loop lower is b) =
       ready_for_testing b @ map category (filter (in_bucket lower ReadyForTesting) is)
   \<and> in_progress (categorize_loop lower is b) =
       in_progress b @ map category (filter (in_bucket lower InProgress) is)
   \<and> backlog_acc (categorize_loop lower is b) =
       backlog_acc b @ map category (filter (in_bucket lower Backlog) is)"
proof (induction "is" arbitrary: b)
  case Nil
  show ?case by simp
next
  case (Cons i rest)
  show ?case
    by (cases "spec_category (label_names lower i)")
       (simp_all add: Cons.IH categorize_step_bucket in_bucket_def label_names_def)
qed

lemma categorize_issues_fields:
  "blocked (categorize_issues lower is) = map category (filter (in_bucket lower Blocked) is)"
  "readyForTesting (categorize_issues lower is) = map category (filter (in_bucket lower ReadyForTesting) is)"
  "inProgress (categorize_issues lower is) = map category (filter (in_bucket lower InProgress) is)"
  "backlog (categorize_issues lower is) = map category (filter (in_bucket lower Backlog) is)"
  by (simp_all add: categorize_issues_def Let_def categorize_loop_buckets)

lemma categorize_issues_counts:
  "blockedCount (categorize_issues lower is) = int (length (blocked (categorize_issues lower is)))"
  "readyForTestingCount (categorize_issues lower is) = int (length (readyForTesting (categorize_issues lower is)))"
  "inProgressCount (categorize_issues lower is) = int (length (inProgress (categorize_issues lower is)))"
  "backlogCount (categorize_issues lower is) = int (length (backlog (categorize_issues lower is)))"
  "totalCount (categorize_issues lower is) = int (length is)"
  by (simp_all add: categorize_issues_def Let_def)

lemma number_category [simp]: "number (category i) = number i"
  by (simp add: category_def)

lemma ids_bucket: "ids (map category (filter P is)) = number ` {i \<in> set is. P i}"
  by (auto simp: ids_def)

lemma bucket_lengths:
  "length (filter (in_bucket lower Blocked) is) + length (filter (in_bucket lower ReadyForTesting) is)
   + length (filter (in_bucket lower InProgress) is) + length (filter (in_bucket lower Backlog) is) = length is"
proof (induction "is")
  case Nil
  show ?case by simp
next
  case (Cons i rest)
  then show ?case
    by (cases "spec_category (label_names lower i)")
       (simp_all add: in_bucket_def label_names_def)
qed

lemma ids_disjoint:
  assumes "distinct (map number is)" and "\<And>i. \<not> (P i \<and> Q i)"
  shows "ids (map category (filter P is)) \<inter> ids (map category (filter Q is)) = {}"
proof -
  have inj: "inj_on number (set is)"
    using assms(1) by (simp add: distinct_map)
  show ?thesis
    unfolding ids_bucket using assms(2) inj by (auto dest: inj_onD)
qed

lemma ids_union:
  "ids (map category (filter (in_bucket lower ReadyForTesting) is)) \<union> ids (map category (filter (in_bucket lower InProgress) is))
   \<union> ids (map category (filter (in_bucket lower Blocked) is)) \<union> ids (map category (filter (in_bucket lower Backlog) is))
   = set (map number is)"
proof -
  have "in_bucket lower ReadyForTesting i \<or> in_bucket lower InProgress i \<or> in_bucket lower Blocked i \<or> in_bucket lower Backlog i" for i
    unfolding in_bucket_def
    by (cases "spec_category (map (\<lambda>l. lower (name l)) (labels i))") simp_all
  then have "set is = {i \<in> set is. in_bucket lower ReadyForTesting i} \<union> {i \<in> set is. in_bucket lower InProgress i}
      \<union> {i \<in> set is. in_bucket lower Blocked i} \<union> {i \<in> set is. in_bucket lower Backlog i}"
    by blast
  then have "number ` set is = number ` {i \<in> set is. in_bucket lower ReadyForTesting i} \<union> number ` {i \<in> set is. in_bucket lower InProgress i}
      \<union> number ` {i \<in> set is. in_bucket lower Blocked i} \<union> number ` {i \<in> set is. in_bucket lower Backlog i}"
    by (metis image_Un)
  then show ?thesis unfolding ids_bucket by simp
qed

lemma in_bucket_exclusive: "c \<noteq> d \<Longrightarrow> \<not> (in_bucket lower c i \<and> in_bucket lower d i)"
  by (auto simp: in_bucket_def)

lemma in_bucket_no_labels: "labels i = [] \<Longrightarrow> in_bucket lower Backlog i"
  by (simp add: in_bucket_def spec_category_def)

lemma spec_category_example:
  "spec_category [''status:in-progress'', ''priority:high''] = InProgress"
  by code_simp

lemma in_bucket_example:
  assumes "lower ''status:in-progress'' = ''status:in-progress''"
    and "lower ''priority:high'' = ''priority:high''"
    and "map name (labels i) = [''status:in-progress'', ''priority:high'']"
  shows "in_bucket lower InProgress i"
proof -
  have "map (\<lambda>l. lower (name l)) (labels i) = map lower (map name (labels i))"
    by simp
  also have "\<dots> = [''status:in-progress'', ''priority:high'']"
    by (simp only: assms list.map)
  finally show ?thesis
    by (simp only: in_bucket_def spec_category_example)
qed

lemma category_in_bucket:
  assumes "i \<in> set is" and "in_bucket lower c i"
  shows "\<lparr>number = number i, title = title i, url = html_url i\<rparr>
         \<in> set (map category (filter (in_bucket lower c) is))"
  using assms by (auto simp: category_def [abs_def])

section \<open>Claims about the categorizer\<close>

text \<open>
  Claim C1. Every issue of the input goes to exactly one bucket, the first whose label
  predicate holds in the order Blocked, ReadyForTesting, InProgress, and to Backlog when
  none holds: each bucket of the snapshot is the input filtered by that choice, with the
  entries (number, title, url) in input order. An issue with no labels is placed in
  Backlog, and an issue with the labels \<open>status:in-progress\<close> and \<open>priority:high\<close>
  is placed in InProgress (these two names are in lower case already, and \<open>lower\<close>
  keeps them).
\<close>

theorem categorize_priority_order:
  "blocked (categorize_issues lower issues) =
     map (\<lambda>i. \<lparr>number = number i, title = title i, url = html_url i\<rparr>)
       (filter (in_bucket lower Blocked) issues)
   \<and> readyForTesting (categorize_issues lower issues) =
     map (\<lambda>i. \<lparr>number = number i, title = title i, url = html_url i\<rparr>)
       (filter (in_bucket lower ReadyForTesting) issues)
   \<and> inProgress (categorize_issues lower issues) =
     map (\<lambda>i. \<lparr>number = number i, title = title i, url = html_url i\<rparr>)
       (filter (in_bucket lower InProgress) issues)
   \<and> backlog (categorize_issues lower issues) =
     map (\<lambda>i. \<lparr>number = number i, title = title i, url = html_url i\<rparr>)
       (filter (in_bucket lower Backlog) issues)
   \<and> (\<forall>i \<in> set issues. labels i = [] \<longrightarrow>
         \<lparr>number = number i, title = title i, url = html_url i\<rparr>
           \<in> set (backlog (categorize_issues lower issues)))
   \<and> (lower ''status:in-progress'' = ''status:in-progress''
        \<and> lower ''priority:high'' = ''priority:high'' \<longrightarrow>
       (\<forall>i \<in> set issues.
          map name (labels i) = [''status:in-progress'', ''priority:high''] \<longrightarrow>
          \<lparr>number = number i, title = title i, url = html_url i\<rparr>
            \<in> set (inProgress (categorize_issues lower issues))))"
proof -
  have fields:
    "blocked (categorize_issues lower issues) =
       map (\<lambda>i. \<lparr>number = number i, title = title i, url = html_url i\<rparr>)
         (filter (in_bucket lower Blocked) issues)"
    "readyForTesting (categorize_issues lower issues) =
       map (\<lambda>i. \<lparr>number = number i, title = title i, url = html_url i\<rparr>)
         (filter (in_bucket lower ReadyForTesting) issues)"
    "inProgress (categorize_issues lower issues) =
       map (\<lambda>i. \<lparr>number = number i, title = title i, url = html_url i\<rparr>)
         (filter (in_bucket lower InProgress) issues)"
    "backlog (categorize_issues lower issues) =
       map (\<lambda>i. \<lparr>number = number i, title = title i, url = html_url i\<rparr>)
         (filter (in_bucket lower Backlog) issues)"
    by (simp_all add: categorize_issues_fields category_def [abs_def])
  have none: "\<lparr>number = number i, title = title i, url = html_url i\<rparr>
      \<in> set (backlog (categorize_issues lower issues))"
    if "i \<in> set issues" and "labels i = []" for i
    unfolding categorize_issues_fields
    using that(1) in_bucket_no_labels [OF that(2)] by (rule category_in_bucket)
  have progress: "\<lparr>number = number i, title = title i, url = html_url i\<rparr>
      \<in> set (inProgress (categorize_issues lower issues))"
    if "lower ''status:in-progress'' = ''status:in-progress''"
      and "lower ''priority:high'' = ''priority:high''"
      and "i \<in> set issues"
      and "map name (labels i) = [''status:in-progress'', ''priority:high'']" for i
    unfolding categorize_issues_fields
    using that(3) in_bucket_example [OF that(1,2,4)] by (rule category_in_bucket)
  from fields none progress show ?thesis
    by (intro conjI ballI impI) (assumption | elim conjE)+
qed

text \<open>Issues 2 (no labels) and 3 of the example list.\<close>

theorem categorize_priority_order_witness:
  "mk_issue 2 [] \<in> set example_issues \<and> labels (mk_issue 2 []) = []
   \<and> entry 2 \<in> set (backlog (categorize_issues ascii_lower example_issues))
   \<and> ascii_lower ''status:in-progress'' = ''status:in-progress''
   \<and> ascii_lower ''priority:high'' = ''priority:high''
   \<and> mk_issue 3 [''status:in-progress'', ''priority:high''] \<in> set example_issues
   \<and> map name (labels (mk_issue 3 [''status:in-progress'', ''priority:high'']))
       = [''status:in-progress'', ''priority:high'']
   \<and> entry 3 \<in> set (inProgress (categorize_issues ascii_lower example_issues))"
proof -
  have m2: "mk_issue 2 [] \<in> set example_issues"
    by (simp add: example_issues_def)
  have l2: "labels (mk_issue 2 []) = []"
    by (simp add: mk_issue_def)
  have a1: "ascii_lower ''status:in-progress'' = ''status:in-progress''"
    by code_simp
  have a2: "ascii_lower ''priority:high'' = ''priority:high''"
    by code_simp
  have m3: "mk_issue 3 [''status:in-progress'', ''priority:high''] \<in> set example_issues"
    by (simp add: example_issues_def)
  have l3: "map name (labels (mk_issue 3 [''status:in-progress'', ''priority:high'']))
       = [''status:in-progress'', ''priority:high'']"
    by (simp add: mk_issue_def)
  note c4 = categorize_priority_order
    [of ascii_lower example_issues, THEN conjunct2, THEN conjunct2, THEN conjunct2,
     THEN conjunct2]
  have b: "entry 2 \<in> set (backlog (categorize_issues ascii_lower example_issues))"
    using c4 [THEN conjunct1, rule_format, OF m2 l2] by (simp add: mk_issue_def entry_def)
  have p: "entry 3 \<in> set (inProgress (categorize_issues ascii_lower example_issues))"
    using c4 [THEN conjunct2, rule_format, OF conjI [OF a1 a2] m3 l3]
    by (simp add: mk_issue_def entry_def)
  show ?thesis
    using m2 l2 b a1 a2 m3 l3 p by (intro conjI)
qed

text \<open>
  An issue labelled \<open>unblocked\<close> and \<open>blocked\<close> has a label containing
  \<open>unblocked\<close>, and the categorizer places it in Blocked: the test
  \<^verbatim>\<open>'blocked' in label and not 'unblocked' in label\<close> looks at one label at a time.
\<close>

theorem unblocked_label_counterexample:
  "list_ex (\<lambda>l. contains (ascii_lower (name l)) ''unblocked'') (labels unblocked_and_blocked)
   \<and> blocked (categorize_issues ascii_lower [unblocked_and_blocked]) = [entry 9]"
  by code_simp

text \<open>
  Claim C5, amended. With pairwise distinct issue numbers, an issue of the input is
  placed in Blocked exactly when one of its labels, in lower case, contains
  \<open>blocked\<close> and does not itself contain \<open>unblocked\<close>. So an issue with a label
  containing \<open>unblocked\<close> is kept out of Blocked when no other label of it contains
  \<open>blocked\<close> without \<open>unblocked\<close>.
\<close>

theorem blocked_iff_blocked_label:
  assumes "distinct (map number issues)" and "i \<in> set issues"
  shows "(number i \<in> number ` set (blocked (categorize_issues lower issues)))
         = list_ex (\<lambda>l. contains (lower (name l)) ''blocked''
                         \<and> \<not> contains (lower (name l)) ''unblocked'') (labels i)"
proof -
  have inj: "inj_on number (set issues)"
    using assms(1) by (simp add: distinct_map)
  have "number ` set (blocked (categorize_issues lower issues))
      = number ` {i \<in> set issues. in_bucket lower Blocked i}"
    by (simp add: categorize_issues_fields image_image)
  then have "(number i \<in> number ` set (blocked (categorize_issues lower issues)))
      = in_bucket lower Blocked i"
    using inj assms(2) by (auto dest: inj_onD)
  also have "\<dots> = list_ex blocked_label (map (\<lambda>l. lower (name l)) (labels i))"
    by (simp add: in_bucket_def spec_category_def)
  finally show ?thesis
    by (simp add: blocked_label_def [abs_def] list_ex_iff)
qed

text \<open>Issue 5 of the example list, labelled \<open>unblocked\<close> and \<open>bug\<close>.\<close>

theorem blocked_iff_blocked_label_witness:
  "distinct (map number example_issues)
   \<and> mk_issue 5 [''unblocked'', ''bug''] \<in> set example_issues
   \<and> list_ex (\<lambda>l. contains (ascii_lower (name l)) ''unblocked'')
        (labels (mk_issue 5 [''unblocked'', ''bug'']))
   \<and> number (mk_issue 5 [''unblocked'', ''bug''])
        \<notin> number ` set (blocked (categorize_issues ascii_lower example_issues))"
proof -
  have d: "distinct (map number example_issues)"
    by code_simp
  have m: "mk_issue 5 [''unblocked'', ''bug''] \<in> set example_issues"
    by (simp add: example_issues_def)
  have u: "list_ex (\<lambda>l. contains (ascii_lower (name l)) ''unblocked'')
        (labels (mk_issue 5 [''unblocked'', ''bug'']))"
    by code_simp
  have n: "\<not> list_ex (\<lambda>l. contains (ascii_lower (name l)) ''blocked''
                          \<and> \<not> contains (ascii_lower (name l)) ''unblocked'')
              (labels (mk_issue 5 [''unblocked'', ''bug'']))"
    by code_simp
  have "number (mk_issue 5 [''unblocked'', ''bug''])
        \<notin> number ` set (blocked (categorize_issues ascii_lower example_issues))"
    using blocked_iff_blocked_label [OF d m, of ascii_lower] n by (simp only: simp_thms)
  with d m u show ?thesis
    by (intro conjI)
qed

lemma categorize_partition_ids:
  assumes "distinct (map number issues)"
  shows "ids (readyForTesting (categorize_issues lower issues)) \<inter> ids (inProgress (categorize_issues lower issues)) = {}
       \<and> ids (readyForTesting (categorize_issues lower issues)) \<inter> ids (blocked (categorize_issues lower issues)) = {}
       \<and> ids (readyForTesting (categorize_issues lower issues)) \<inter> ids (backlog (categorize_issues lower issues)) = {}
       \<and> ids (inProgress (categorize_issues lower issues)) \<inter> ids (blocked (categorize_issues lower issues)) = {}
       \<and> ids (inProgress (categorize_issues lower issues)) \<inter> ids (backlog (categorize_issues lower issues)) = {}
       \<and> ids (blocked (categorize_issues lower issues)) \<inter> ids (backlog (categorize_issues lower issues)) = {}
       \<and> ids (readyForTesting (categorize_issues lower issues)) \<union> ids (inProgress (categorize_issues lower issues))
           \<union> ids (blocked (categorize_issues lower issues)) \<union> ids (backlog (categorize_issues lower issues))
          = set (map number issues)
       \<and> readyForTestingCount (categorize_issues lower issues) = int (length (readyForTesting (categorize_issues lower issues)))
       \<and> inProgressCount (categorize_issues lower issues) = int (length (inProgress (categorize_issues lower issues)))
       \<and> blockedCount (categorize_issues lower issues) = int (length (blocked (categorize_issues lower issues)))
       \<and> backlogCount (categorize_issues lower issues) = int (length (backlog (categorize_issues lower issues)))"
proof -
  have disj: "ids (map category (filter (in_bucket lower c) issues))
      \<inter> ids (map category (filter (in_bucket lower d) issues)) = {}" if "c \<noteq> d" for c d
    using assms in_bucket_exclusive [OF that] by (rule ids_disjoint)
  show ?thesis
    unfolding categorize_issues_fields
    by (simp add: disj ids_union categorize_issues_counts [unfolded categorize_issues_fields])
qed

text \<open>
  Claim C2. For an issue list whose issue numbers are pairwise distinct, the four
  sequences of the snapshot that \<^const>\<open>categorize_issues\<close> builds are pairwise
  disjoint as sets of issue numbers, the union of their numbers is the set of input
  numbers, and each count field is the length of its sequence.
\<close>

theorem categorize_partition:
  assumes "distinct (map number issues)"
  shows "number ` set (readyForTesting (categorize_issues lower issues)) \<inter> number ` set (inProgress (categorize_issues lower issues)) = {}
       \<and> number ` set (readyForTesting (categorize_issues lower issues)) \<inter> number ` set (blocked (categorize_issues lower issues)) = {}
       \<and> number ` set (readyForTesting (categorize_issues lower issues)) \<inter> number ` set (backlog (categorize_issues lower issues)) = {}
       \<and> number ` set (inProgress (categorize_issues lower issues)) \<inter> number ` set (blocked (categorize_issues lower issues)) = {}
       \<and> number ` set (inProgress (categorize_issues lower issues)) \<inter> number ` set (backlog (categorize_issues lower issues)) = {}
       \<and> number ` set (blocked (categorize_issues lower issues)) \<inter> number ` set (backlog (categorize_issues lower issues)) = {}
       \<and> number ` set (readyForTesting (categorize_issues lower issues)) \<union> number ` set (inProgress (categorize_issues lower issues))
           \<union> number ` set (blocked (categorize_issues lower issues)) \<union> number ` set (backlog (categorize_issues lower issues))
          = number ` set issues
       \<and> readyForTestingCount (categorize_issues lower issues) = int (length (readyForTesting (categorize_issues lower issues)))
       \<and> inProgressCount (categorize_issues lower issues) = int (length (inProgress (categorize_issues lower issues)))
       \<and> blockedCount (categorize_issues lower issues) = int (length (blocked (categorize_issues lower issues)))
       \<and> backlogCount (categorize_issues lower issues) = int (length (backlog (categorize_issues lower issues)))"
  using categorize_partition_ids [OF assms, of lower] by (simp only: ids_def set_map)

text \<open>The five example issues have distinct numbers, and the partition holds there.\<close>

theorem categorize_partition_witness:
  "distinct (map number example_issues)
   \<and> number ` set (readyForTesting (categorize_issues ascii_lower example_issues)) \<inter> number ` set (blocked (categorize_issues ascii_lower example_issues)) = {}
   \<and> number ` set (readyForTesting (categorize_issues ascii_lower example_issues)) \<union> number ` set (inProgress (categorize_issues ascii_lower example_issues))
           \<union> number ` set (blocked (categorize_issues ascii_lower example_issues)) \<union> number ` set (backlog (categorize_issues ascii_lower example_issues))
          = number ` set example_issues
   \<and> blockedCount (categorize_issues ascii_lower example_issues) = int (length (blocked (categorize_issues ascii_lower example_issues)))"
proof -
  have d: "distinct (map number example_issues)"
    by code_simp
  note p = categorize_partition [OF d, of ascii_lower]
  show ?thesis
    using d p [THEN conjunct2, THEN conjunct1]
      p [THEN conjunct2, THEN conjunct2, THEN conjunct2, THEN conjunct2, THEN conjunct2,
         THEN conjunct2, THEN conjunct1]
      p [THEN conjunct2, THEN conjunct2, THEN conjunct2, THEN conjunct2, THEN conjunct2,
         THEN conjunct2, THEN conjunct2, THEN conjunct2, THEN conjunct2, THEN conjunct1]
    by (intro conjI)
qed

text \<open>
  Claim C10. The snapshot has a field \<^const>\<open>totalCount\<close>; it is the number of input
  issues, and so the sum of the four count fields.
\<close>

theorem total_count:
  "totalCount (categorize_issues lower issues) = int (length issues)
   \<and> totalCount (categorize_issues lower issues) =
       readyForTestingCount (categorize_issues lower issues) + inProgressCount (categorize_issues lower issues)
       + blockedCount (categorize_issues lower issues) + backlogCount (categorize_issues lower issues)"
  using bucket_lengths [of lower issues]
  by (simp add: categorize_issues_counts categorize_issues_fields)

section \<open>The delta engine: both branches unfolded\<close>

lemma ids_append: "ids (xs @ ys) = ids xs \<union> ids ys"
  by (simp add: ids_def)

lemma calculate_delta_None:
  "calculate_delta current None =
     \<lparr>readyForTestingDelta =
        \<lparr>count = readyForTestingCount current, delta = readyForTestingCount current,
         new = Some (readyForTesting current), moved = Some []\<rparr>,
      inProgressDelta =
        \<lparr>count = inProgressCount current, delta = inProgressCount current,
         new = Some (inProgress current), moved = None\<rparr>,
      blockedDelta =
        \<lparr>count = blockedCount current, delta = blockedCount current,
         new = Some (blocked current), moved = None\<rparr>,
      backlogDelta =
        \<lparr>count = backlogCount current, delta = backlogCount current,
         new = None, moved = None\<rparr>\<rparr>"
  by (simp add: calculate_delta_def)

lemma calculate_delta_Some:
  "calculate_delta current (Some prev) =
     \<lparr>readyForTestingDelta =
        \<lparr>count = readyForTestingCount current,
         delta = readyForTestingCount current - readyForTestingCount prev,
         new = Some (filter (\<lambda>i. number i \<notin> ids (readyForTesting prev)) (readyForTesting current)),
         moved = Some (filter (\<lambda>i. number i \<in> ids (inProgress prev) \<or> number i \<in> ids (blocked prev)
                                     \<or> number i \<in> ids (backlog prev)) (readyForTesting current))\<rparr>,
      inProgressDelta =
        \<lparr>count = inProgressCount current,
         delta = inProgressCount current - inProgressCount prev,
         new = Some (filter (\<lambda>i. number i \<notin> ids (readyForTesting prev @ inProgress prev
                                                      @ blocked prev @ backlog prev))
                       (inProgress current)),
         moved = None\<rparr>,
      blockedDelta =
        \<lparr>count = blockedCount current,
         delta = blockedCount current - blockedCount prev,
         new = Some (filter (\<lambda>i. number i \<notin> ids (readyForTesting prev @ inProgress prev
                                                      @ blocked prev @ backlog prev))
                       (blocked current)),
         moved = None\<rparr>,
      backlogDelta =
        \<lparr>count = backlogCount current, delta = backlogCount current - backlogCount prev,
         new = None, moved = None\<rparr>\<rparr>"
  by (simp add: calculate_delta_def Let_def)

lemma before_move_value:
  "before_move =
     \<lparr>readyForTesting = [], inProgress = [], blocked = [entry 5], backlog = [entry 7],
      readyForTestingCount = 0, inProgressCount = 0, blockedCount = 1, backlogCount = 1,
      totalCount = 2\<rparr>"
  by code_simp

lemma after_move_value:
  "after_move =
     \<lparr>readyForTesting = [entry 5], inProgress = [], blocked = [], backlog = [entry 7],
      readyForTestingCount = 1, inProgressCount = 0, blockedCount = 0, backlogCount = 1,
      totalCount = 2\<rparr>"
  by code_simp

lemma map_number_filter:
  "map number (filter (\<lambda>i. P (number i)) xs) = filter P (map number xs)"
  by (simp add: filter_map comp_def)

section \<open>Claims about the delta engine\<close>

text \<open>
  Claim C3. When there is no previous snapshot, the net change of each of the four
  categories is its current count, the new issues of ReadyForTesting, InProgress and
  Blocked are the whole current bucket, the moved issues of ReadyForTesting are empty,
  and the Backlog entry has a count and a net change and neither list.
\<close>

theorem first_run_delta:
  "delta (readyForTestingDelta (calculate_delta current None)) = readyForTestingCount current
   \<and> delta (inProgressDelta (calculate_delta current None)) = inProgressCount current
   \<and> delta (blockedDelta (calculate_delta current None)) = blockedCount current
   \<and> delta (backlogDelta (calculate_delta current None)) = backlogCount current
   \<and> new (readyForTestingDelta (calculate_delta current None)) = Some (readyForTesting current)
   \<and> new (inProgressDelta (calculate_delta current None)) = Some (inProgress current)
   \<and> new (blockedDelta (calculate_delta current None)) = Some (blocked current)
   \<and> moved (readyForTestingDelta (calculate_delta current None)) = Some []
   \<and> count (backlogDelta (calculate_delta current None)) = backlogCount current
   \<and> new (backlogDelta (calculate_delta current None)) = None
   \<and> moved (backlogDelta (calculate_delta current None)) = None"
  by (simp add: calculate_delta_None)

text \<open>
  The earlier snapshot has issue 5 in Blocked, the later one has it in ReadyForTesting,
  and issue 7 stays in Backlog. Issue 5 is reported as moved and also as new, not with an
  empty list of new issues: \<^verbatim>\<open>new_ready\<close> is taken against the previous
  ReadyForTesting bucket alone, where issue 5 was not.
\<close>

theorem moved_issue_is_also_new:
  "new (readyForTestingDelta (calculate_delta after_move (Some before_move))) = Some [entry 5]
   \<and> moved (readyForTestingDelta (calculate_delta after_move (Some before_move))) = Some [entry 5]
   \<and> new (readyForTestingDelta (calculate_delta after_move (Some before_move))) \<noteq> Some []"
  by (simp add: calculate_delta_Some before_move_value after_move_value ids_def entry_def)

lemma moved_issues_are_new_ids:
  assumes "ids (readyForTesting prev)
           \<inter> (ids (inProgress prev) \<union> ids (blocked prev) \<union> ids (backlog prev)) = {}"
  shows "moved (readyForTestingDelta (calculate_delta after_move (Some before_move))) = Some [entry 5]
       \<and> new (readyForTestingDelta (calculate_delta after_move (Some before_move))) = Some [entry 5]
       \<and> delta (blockedDelta (calculate_delta after_move (Some before_move))) = - 1
       \<and> moved (readyForTestingDelta (calculate_delta current (Some prev))) =
           map_option (filter (\<lambda>i. number i \<in> ids (inProgress prev) \<or> number i \<in> ids (blocked prev)
                                    \<or> number i \<in> ids (backlog prev)))
             (new (readyForTestingDelta (calculate_delta current (Some prev))))"
proof -
  have ex: "moved (readyForTestingDelta (calculate_delta after_move (Some before_move))) = Some [entry 5]
       \<and> new (readyForTestingDelta (calculate_delta after_move (Some before_move))) = Some [entry 5]
       \<and> delta (blockedDelta (calculate_delta after_move (Some before_move))) = - 1"
    by (simp add: calculate_delta_Some before_move_value after_move_value ids_def entry_def)
  have "filter (\<lambda>i. number i \<in> ids (inProgress prev) \<or> number i \<in> ids (blocked prev)
                                    \<or> number i \<in> ids (backlog prev)) (readyForTesting current)
     = filter (\<lambda>i. number i \<in> ids (inProgress prev) \<or> number i \<in> ids (blocked prev)
                                    \<or> number i \<in> ids (backlog prev)) 
        (filter (\<lambda>i. number i \<notin> ids (readyForTesting prev)) (readyForTesting current))"
    using assms by (auto intro!: filter_cong)
  with ex show ?thesis
    by (simp add: calculate_delta_Some)
qed

text \<open>
  Claim C4, amended. For that pair of snapshots the report has issue 5 as the moved
  issues of ReadyForTesting, issue 5 as its new issues as well, and a net change of -1
  for Blocked. In general, when no number of the previous ReadyForTesting bucket occurs
  in the previous InProgress, Blocked or Backlog bucket, the moved issues of
  ReadyForTesting are those of its new issues whose number was in one of these three
  buckets: every moved issue is also a new one.
\<close>

theorem moved_issues_are_new:
  assumes "number ` set (readyForTesting prev)
           \<inter> (number ` set (inProgress prev) \<union> number ` set (blocked prev) \<union> number ` set (backlog prev)) = {}"
  shows "moved (readyForTestingDelta (calculate_delta after_move (Some before_move))) = Some [entry 5]
       \<and> new (readyForTestingDelta (calculate_delta after_move (Some before_move))) = Some [entry 5]
       \<and> delta (blockedDelta (calculate_delta after_move (Some before_move))) = - 1
       \<and> moved (readyForTestingDelta (calculate_delta current (Some prev))) =
           map_option (filter (\<lambda>i. number i \<in> number ` set (inProgress prev) \<or> number i \<in> number ` set (blocked prev)
                                    \<or> number i \<in> number ` set (backlog prev)))
             (new (readyForTestingDelta (calculate_delta current (Some prev))))"
  using assms moved_issues_are_new_ids [of prev current] by (simp only: ids_def set_map)

text \<open>The general part at the pair of snapshots of the example.\<close>

theorem moved_issues_are_new_witness:
  "number ` set (readyForTesting before_move)
     \<inter> (number ` set (inProgress before_move) \<union> number ` set (blocked before_move) \<union> number ` set (backlog before_move)) = {}
   \<and> moved (readyForTestingDelta (calculate_delta after_move (Some before_move))) =
       map_option (filter (\<lambda>i. number i \<in> number ` set (inProgress before_move)
                                \<or> number i \<in> number ` set (blocked before_move)
                                \<or> number i \<in> number ` set (backlog before_move)))
         (new (readyForTestingDelta (calculate_delta after_move (Some before_move))))"
proof -
  have h: "number ` set (readyForTesting before_move)
     \<inter> (number ` set (inProgress before_move) \<union> number ` set (blocked before_move)
        \<union> number ` set (backlog before_move)) = {}"
    by (simp add: before_move_value)
  show ?thesis
    using h moved_issues_are_new [OF h, of after_move, THEN conjunct2, THEN conjunct2, THEN conjunct2]
    by (intro conjI)
qed

text \<open>
  Claim C6. With a previous snapshot, the new issues of InProgress (and likewise of
  Blocked) are the issues of the current bucket, in its order, whose number is in none
  of the four previous sequences.
\<close>

theorem new_in_progress_and_blocked:
  "new (inProgressDelta (calculate_delta current (Some prev))) =
     Some (filter (\<lambda>i. number i \<notin> number ` (set (readyForTesting prev) \<union> set (inProgress prev)
                                                \<union> set (blocked prev) \<union> set (backlog prev)))
            (inProgress current))
   \<and> new (blockedDelta (calculate_delta current (Some prev))) =
     Some (filter (\<lambda>i. number i \<notin> number ` (set (readyForTesting prev) \<union> set (inProgress prev)
                                                \<union> set (blocked prev) \<union> set (backlog prev)))
            (blocked current))"
  by (simp add: calculate_delta_Some ids_def image_Un)

text \<open>
  Claim C7. Two pairs of snapshots that agree on the issue numbers of every bucket and
  on the counts, whatever the titles and urls, get the same classification: the same
  counts and net changes, and the same issue numbers in every list of new and of moved
  issues.
\<close>

theorem delta_depends_on_numbers_only:
  assumes "same_numbers current current'" and "same_numbers_opt previous previous'"
  shows "same_classification (calculate_delta current previous) (calculate_delta current' previous')"
proof (cases previous)
  case None
  with assms(2) have "previous' = None"
    by (simp add: same_numbers_opt_def split: option.splits)
  with None assms(1) show ?thesis
    by (simp add: calculate_delta_None same_classification_def same_entry_def same_numbers_def)
next
  case (Some prev)
  with assms(2) obtain prev' where p: "previous' = Some prev'" and sp: "same_numbers prev prev'"
    by (auto simp: same_numbers_opt_def split: option.splits)
  have i: "ids (readyForTesting prev) = ids (readyForTesting prev')"
    "ids (inProgress prev) = ids (inProgress prev')"
    "ids (blocked prev) = ids (blocked prev')"
    "ids (backlog prev) = ids (backlog prev')"
    using sp by (simp_all add: same_numbers_def ids_def)
  show ?thesis
    unfolding Some p calculate_delta_Some same_classification_def same_entry_def
    using assms(1) sp
    by (simp add: same_numbers_def ids_append i
        map_number_filter [of "\<lambda>n. n \<notin> A" for A]
        map_number_filter [of "\<lambda>n. n \<in> A \<or> n \<in> B \<or> n \<in> C" for A B C]
        map_number_filter [of "\<lambda>n. n \<notin> A \<and> n \<notin> B \<and> n \<notin> C \<and> n \<notin> D" for A B C D])
qed

text \<open>The example pair, and the same pair with every title and url changed.\<close>

theorem delta_depends_on_numbers_only_witness:
  "same_numbers after_move after_move_renamed
   \<and> same_numbers_opt (Some before_move) (Some before_move_renamed)
   \<and> same_classification (calculate_delta after_move (Some before_move))
        (calculate_delta after_move_renamed (Some before_move_renamed))"
proof -
  have c: "same_numbers after_move after_move_renamed"
    by code_simp
  have p: "same_numbers_opt (Some before_move) (Some before_move_renamed)"
    by code_simp
  from delta_depends_on_numbers_only [OF c p] c p show ?thesis
    by (intro conjI)
qed

section \<open>The message formatter: decimal digits\<close>

lemma digit_value: "d < 10 \<Longrightarrow> of_char (digit_char d) - 48 = d"
  by (simp add: digit_char_def)

lemma decimal_value_snoc:
  "decimal_value (s @ [c]) = 10 * decimal_value s + (of_char c - 48)"
  by (simp add: decimal_value_def)

lemma decimal_value_str_nat: "decimal_value (str_nat n) = n"
proof (induction n rule: str_nat.induct)
  case (1 n)
  show ?case
  proof (cases "n < 10")
    case True
    then show ?thesis
      by (subst str_nat.simps) (simp add: decimal_value_def digit_value)
  next
    case False
    have "decimal_value (str_nat n)
        = 10 * decimal_value (str_nat (n div 10)) + (of_char (digit_char (n mod 10)) - 48)"
      using False by (subst str_nat.simps) (simp add: decimal_value_snoc)
    also have "\<dots> = 10 * (n div 10) + n mod 10"
      using False by (simp add: "1.IH" digit_value)
    finally show ?thesis by simp
  qed
qed

lemma str_nat_not_zero: "0 < n \<Longrightarrow> str_nat n \<noteq> ''0''"
proof
  assume "0 < n" and "str_nat n = ''0''"
  then have "decimal_value ''0'' = n"
    using decimal_value_str_nat [of n] by simp
  moreover have "decimal_value ''0'' = 0"
    by (simp add: decimal_value_def)
  ultimately show False using \<open>0 < n\<close> by simp
qed

text \<open>
  Claim C9. \<^const>\<open>format_delta\<close> renders a positive number as a plus sign and its
  decimal digits, a negative number as a minus sign and the decimal digits of its
  magnitude, and zero as \<open>no change\<close>, never as \<open>+0\<close>; 5, -2 and 0 give \<open>+5\<close>,
  \<open>-2\<close> and \<open>no change\<close>.
\<close>

theorem format_delta_sign:
  "format_delta n =
     (if 0 < n then CHR ''+'' # str_nat (nat n)
      else if n < 0 then CHR ''-'' # str_nat (nat (- n))
      else ''no change'')
   \<and> decimal_value (str_nat (nat \<bar>n\<bar>)) = nat \<bar>n\<bar>
   \<and> format_delta n \<noteq> ''+0''
   \<and> format_delta 5 = ''+5'' \<and> format_delta (- 2) = ''-2'' \<and> format_delta 0 = ''no change''"
proof -
  have shape: "format_delta n =
     (if 0 < n then CHR ''+'' # str_nat (nat n)
      else if n < 0 then CHR ''-'' # str_nat (nat (- n))
      else ''no change'')"
    by (simp add: format_delta_def str_int_def)
  have never: "format_delta n \<noteq> ''+0''"
    unfolding shape using str_nat_not_zero [of "nat n"] by simp
  have e1: "format_delta 5 = ''+5''" by code_simp
  have e2: "format_delta (- 2) = ''-2''" by code_simp
  have e3: "format_delta 0 = ''no change''" by code_simp
  from shape never e1 e2 e3 show ?thesis
    by (simp only: decimal_value_str_nat simp_thms)
qed

section \<open>The run and the snapshot file\<close>

lemma send_slack_message_returns:
  "send_slack_message dry_run post = (if dry_run then Inr () else map_sum id (\<lambda>r. ()) post)"
  by (simp add: send_slack_message_def split: sum.splits)

lemma main_exception_keeps_file:
  "send_slack_message dry_run (slack_post w) = Inl e \<Longrightarrow> snd (main lower dry_run w file) = file"
  by (simp add: main_def Let_def split: sum.splits)

lemma main_failure_keeps_file:
  "fst (main lower dry_run w file) \<noteq> 0 \<Longrightarrow> snd (main lower dry_run w file) = file"
  by (simp add: main_def Let_def split: sum.splits)

lemma main_rejected_saves:
  assumes "github_secret w = Inr a" and "slack_secret w = Inr b" and "github_issues w = Inr is"
    and "file \<noteq> Corrupt" and "slack_post w = Inr r"
  shows "main lower dry_run w file = (0, save_snapshot (categorize_issues lower is) (clock w))"
  using assms
  by (simp add: main_def Let_def load_previous_snapshot_def send_slack_message_def
      split: snapshot_file.splits)

text \<open>
  Claim C8 says that a run whose notification step fails leaves the persisted snapshot
  as it was. A notification that raises does so (\<open>main_exception_keeps_file\<close>). At a
  live run in which Slack answers \<^verbatim>\<open>ok: false\<close> the code does otherwise:
  \<^const>\<open>send_slack_message\<close> returns as after a delivery, \<^const>\<open>main\<close> goes on to
  \<^const>\<open>save_snapshot\<close>, and the run ends with status 0 and the earlier snapshot
  replaced.
\<close>

theorem rejected_message_overwrites_snapshot:
  "slack_post rejecting_world = Inr \<lparr>ok = False, ts = [], error = ''channel_not_found''\<rparr>
   \<and> main ascii_lower False rejecting_world old_file = (0, save_snapshot after_move ''2025-01-02T09:00:00'')
   \<and> save_snapshot after_move ''2025-01-02T09:00:00'' \<noteq> old_file"
  by code_simp

end
